theory Spec2Isabelle
  imports Complex_Main "HOL-Library.Word"
begin

section \<open>Engine math types used by the odometry component\<close>

text \<open>
  The component computes on the engine's \<open>FVector\<close>, \<open>FQuat\<close>, \<open>FRotator\<close> and
  \<open>FTransform\<close>.  Their floating-point components are modelled as real numbers, so
  the rounding of arithmetic, NaN and infinities are outside the model; a floating-point
  literal of the source is the number the literal denotes.  The operations below follow the
  engine's definitions of the member functions that \<open>InitOdom\<close> and \<open>UpdateOdom\<close> call.
\<close>

datatype FVector = FVector real real real

datatype FQuat = FQuat real real real real

text \<open>The engine's constructor takes its arguments in the order pitch, yaw, roll.\<close>

datatype FRotator = FRotator (Pitch: real) (Yaw: real) (Roll: real)

record FTransform =
  Rotation :: FQuat
  Translation :: FVector
  Scale3D :: FVector

definition ZeroVector :: FVector where
  "ZeroVector = FVector 0 0 0"

definition QuatIdentity :: FQuat where
  "QuatIdentity = FQuat 0 0 0 1"

fun vec_add :: "FVector \<Rightarrow> FVector \<Rightarrow> FVector" where
  "vec_add (FVector a b c) (FVector x y z) = FVector (a + x) (b + y) (c + z)"

fun vec_sub :: "FVector \<Rightarrow> FVector \<Rightarrow> FVector" where
  "vec_sub (FVector a b c) (FVector x y z) = FVector (a - x) (b - y) (c - z)"

fun vec_scale :: "real \<Rightarrow> FVector \<Rightarrow> FVector" where
  "vec_scale k (FVector x y z) = FVector (k * x) (k * y) (k * z)"

fun vec_div :: "FVector \<Rightarrow> real \<Rightarrow> FVector" where
  "vec_div (FVector x y z) k = FVector (x * (1 / k)) (y * (1 / k)) (z * (1 / k))"

fun CrossProduct :: "FVector \<Rightarrow> FVector \<Rightarrow> FVector" where
  "CrossProduct (FVector a b c) (FVector x y z) =
     FVector (b * z - c * y) (c * x - a * z) (a * y - b * x)"

text \<open>\<open>A * B\<close> on quaternions: the Hamilton product.\<close>

fun quat_mul :: "FQuat \<Rightarrow> FQuat \<Rightarrow> FQuat" where
  "quat_mul (FQuat ax ay az aw) (FQuat bx by bz bw) =
     FQuat (aw * bx + ax * bw + ay * bz - az * by)
           (aw * by - ax * bz + ay * bw + az * bx)
           (aw * bz + ax * by - ay * bx + az * bw)
           (aw * bw - ax * bx - ay * by - az * bz)"

text \<open>\<open>FQuat::Inverse\<close> negates the vector part (the conjugate).\<close>

fun Inverse :: "FQuat \<Rightarrow> FQuat" where
  "Inverse (FQuat x y z w) = FQuat (- x) (- y) (- z) w"

fun SizeSquared :: "FQuat \<Rightarrow> real" where
  "SizeSquared (FQuat x y z w) = x * x + y * y + z * z + w * w"

definition Size :: "FQuat \<Rightarrow> real" where
  "Size q = sqrt (SizeSquared q)"

text \<open>
  The single-precision literals of the sources, as the numbers they denote: \<open>1e-9f\<close>,
  \<open>1e-05f\<close>, \<open>1e-03f\<close>, and the engine's tolerance \<open>1.e-8f\<close>.  Each is the
  binary fraction with a 24-bit numerator nearest to the decimal.
\<close>

definition float_1e_09 :: real where
  "float_1e_09 = 9007199 / 2 ^ 53"

definition float_1e_05 :: real where
  "float_1e_05 = 2748779 / 2 ^ 38"

definition float_1e_03 :: real where
  "float_1e_03 = 8589935 / 2 ^ 33"

definition SMALL_NUMBER :: real where
  "SMALL_NUMBER = 11258999 / 2 ^ 50"

text \<open>
  \<open>FQuat::Normalize\<close> scales by the inverse square root of the squared size, and falls
  back to the identity when the squared size is below the tolerance.
  \<open>GetNormalized\<close> does the same on a copy.
\<close>

fun Normalize :: "FQuat \<Rightarrow> FQuat" where
  "Normalize (FQuat x y z w) =
     (let SquareSum = x * x + y * y + z * z + w * w in
      if SquareSum \<ge> SMALL_NUMBER
      then (let Scale = 1 / sqrt SquareSum in
            FQuat (x * Scale) (y * Scale) (z * Scale) (w * Scale))
      else QuatIdentity)"

definition GetNormalized :: "FQuat \<Rightarrow> FQuat" where
  "GetNormalized q = Normalize q"

text \<open>\<open>FQuat::UnrotateVector\<close>: rotate by the inverse quaternion.\<close>

fun UnrotateVector :: "FQuat \<Rightarrow> FVector \<Rightarrow> FVector" where
  "UnrotateVector (FQuat x y z w) v =
     (let q = FVector (- x) (- y) (- z);
          tt = vec_scale 2 (CrossProduct q v)
      in vec_add (vec_add v (vec_scale w tt)) (CrossProduct q tt))"

definition trunc :: "real \<Rightarrow> int" where
  "trunc r = (if 0 \<le> r then \<lfloor>r\<rfloor> else \<lceil>r\<rceil>)"

definition Fmod :: "real \<Rightarrow> real \<Rightarrow> real" where
  "Fmod x y = x - y * of_int (trunc (x / y))"

text \<open>
  \<open>FRotator::Quaternion\<close>: the angles are in degrees; each is reduced modulo 360 and
  halved before its sine and cosine are taken.
\<close>

definition Quaternion :: "FRotator \<Rightarrow> FQuat" where
  "Quaternion r =
     (let RADS_DIVIDED_BY_2 = (pi / 180) / 2;
          SP = sin (Fmod (Pitch r) 360 * RADS_DIVIDED_BY_2);
          CP = cos (Fmod (Pitch r) 360 * RADS_DIVIDED_BY_2);
          SY = sin (Fmod (Yaw r) 360 * RADS_DIVIDED_BY_2);
          CY = cos (Fmod (Yaw r) 360 * RADS_DIVIDED_BY_2);
          SR = sin (Fmod (Roll r) 360 * RADS_DIVIDED_BY_2);
          CR = cos (Fmod (Roll r) 360 * RADS_DIVIDED_BY_2)
      in FQuat (CR * SP * SY - SR * CP * CY)
               (- CR * SP * CY - SR * CP * SY)
               (CR * CP * SY - SR * SP * CY)
               (CR * CP * CY + SR * SP * SY))"


section \<open>The odometry component\<close>

datatype EOdomSource = WORLD | ENCODER

text \<open>
  The odometry message.  The nested message structs are flattened: a field
  \<open>Pose.Pose.Position\<close> of the source is \<open>Pose_Pose_Position\<close> here.  A covariance array
  is a map from its index to the stored value.
\<close>

record 'stamp FROSOdom =
  Header_Stamp :: 'stamp
  Header_FrameId :: string
  Msg_ChildFrameId :: string
  Pose_Pose_Position :: FVector
  Pose_Pose_Orientation :: FQuat
  Pose_Covariance :: "nat \<Rightarrow> real"
  Twist_Twist_Linear :: FVector
  Twist_Twist_Angular :: FVector
  Twist_Covariance :: "nat \<Rightarrow> real"

record 'stamp URRBaseOdomComponent =
  bManualUpdate :: bool
  LastUpdatedTime :: real
  FrameId :: string
  ChildFrameId :: string
  OdomSource :: EOdomSource
  bWithNoise :: bool
  NoiseMeanPos :: real
  NoiseVariancePos :: real
  NoiseMeanRot :: real
  NoiseVarianceRot :: real
  GaussianRNGPosition :: "real \<times> real"
  GaussianRNGRotation :: "real \<times> real"
  InitialTransform :: FTransform
  PreviousTransform :: FTransform
  PreviousNoisyTransform :: FTransform
  RootOffset :: FTransform
  bIsOdomInitialized :: bool
  OdomData :: "'stamp FROSOdom"

text \<open>
  What one call reads from outside the component: the world time, the owner actor's
  location and orientation, and the three draws that \<open>UpdateOdom\<close> takes from the two
  Gaussian generators (two for the position, one for the rotation).
\<close>

record Tick =
  TimeSeconds :: real
  ActorLocation :: FVector
  ActorQuat :: FQuat
  PositionDrawX :: real
  PositionDrawY :: real
  RotationDraw :: real

definition SetFrameIds ::
  "string \<Rightarrow> string \<Rightarrow> 'stamp URRBaseOdomComponent \<Rightarrow> 'stamp URRBaseOdomComponent" where
  "SetFrameIds InFrameId InChildFrameId s =
     s\<lparr>FrameId := InFrameId, ChildFrameId := InChildFrameId,
       OdomData := (OdomData s)\<lparr>Header_FrameId := InFrameId,
                                 Msg_ChildFrameId := InChildFrameId\<rparr>\<rparr>"

text \<open>
  The twelve assignments of \<open>InitOdom\<close> to a covariance array, whose elements are
  doubles: the entries written with \<open>1e-05f\<close> and \<open>1e-03f\<close> hold the single-precision
  values, the entries written with \<open>1e+12\<close> hold that number.
\<close>

definition InitCovariance :: "(nat \<Rightarrow> real) \<Rightarrow> (nat \<Rightarrow> real)" where
  "InitCovariance c =
     c(0 := float_1e_05, 7 := float_1e_05, 14 := 10 ^ 12, 21 := 10 ^ 12,
       28 := 10 ^ 12, 35 := float_1e_03)"

definition InitOdom ::
  "'stamp URRBaseOdomComponent \<Rightarrow> Tick \<Rightarrow> 'stamp URRBaseOdomComponent" where
  "InitOdom s w =
     (let init =
            (if OdomSource s = ENCODER
             then (InitialTransform s)\<lparr>Translation := ActorLocation w,
                                        Rotation := ActorQuat w\<rparr>
             else (InitialTransform s)\<lparr>Translation := ZeroVector,
                                        Rotation := QuatIdentity\<rparr>)
      in s\<lparr>GaussianRNGPosition := (NoiseMeanPos s, NoiseVariancePos s),
           GaussianRNGRotation := (NoiseMeanRot s, NoiseVarianceRot s),
           InitialTransform := init,
           PreviousTransform := init,
           PreviousNoisyTransform := init,
           bIsOdomInitialized := True,
           LastUpdatedTime := TimeSeconds w,
           OdomData := (OdomData s)\<lparr>
             Header_FrameId := FrameId s,
             Msg_ChildFrameId := ChildFrameId s,
             Pose_Pose_Position := Translation init,
             Pose_Pose_Orientation := Rotation init,
             Pose_Covariance := InitCovariance (Pose_Covariance (OdomData s)),
             Twist_Covariance := InitCovariance (Twist_Covariance (OdomData s))\<rparr>\<rparr>)"

text \<open>The rotator that \<open>UpdateOdom\<close> builds for the rotational noise.\<close>

definition noiseRot :: "'stamp URRBaseOdomComponent \<Rightarrow> Tick \<Rightarrow> FRotator" where
  "noiseRot s w = FRotator 0 0 (of_bool (bWithNoise s) * RotationDraw w)"

text \<open>
  \<open>UpdateOdom\<close>.  The conversion of the time to a message stamp and the conversion of a
  quaternion to Euler angles are passed in as \<open>toStamp\<close> and \<open>euler\<close>.
  The local \<open>pos0\<close> is \<open>pos\<close> before the \<open>+=\<close>, \<open>rot0\<close> is \<open>rot\<close> before it is
  reassigned, and \<open>odom1\<close> to \<open>odom5\<close> are the message after each group of
  assignments to \<open>OdomData\<close>, in the order of the source.
\<close>

definition UpdateOdom ::
  "(real \<Rightarrow> 'stamp) \<Rightarrow> (FQuat \<Rightarrow> FVector) \<Rightarrow> 'stamp URRBaseOdomComponent \<Rightarrow> Tick \<Rightarrow> real
     \<Rightarrow> 'stamp URRBaseOdomComponent" where
  "UpdateOdom toStamp euler s0 w InDeltaTime =
     (let s = (if \<not> bIsOdomInitialized s0 then InitOdom s0 w else s0) in
      if InDeltaTime < float_1e_09 then s
      else
        (let previousEstimatedPos = Translation (PreviousNoisyTransform s);
             previousEstimatedRot = Rotation (PreviousNoisyTransform s);
             pos0 = UnrotateVector (Rotation (InitialTransform s))
                      (vec_sub (ActorLocation w) (Translation (InitialTransform s)));
             previousPos = Translation (PreviousTransform s);
             pos = vec_add pos0
                     (vec_add (vec_sub previousEstimatedPos previousPos)
                        (vec_scale (of_bool (bWithNoise s))
                           (FVector (PositionDrawX w) (PositionDrawY w) 0)));
             rot0 = quat_mul (ActorQuat w) (Inverse (Rotation (InitialTransform s)));
             previousRot = Rotation (PreviousTransform s);
             rot = Normalize
                     (quat_mul
                        (quat_mul
                           (quat_mul (Quaternion (noiseRot s w)) previousEstimatedRot)
                           (Inverse previousRot))
                        rot0);
             odom1 = (OdomData s)\<lparr>Header_Stamp := toStamp (TimeSeconds w)\<rparr>;
             odom2 = odom1\<lparr>Pose_Pose_Position := vec_add pos (Translation (RootOffset s)),
                            Pose_Pose_Orientation := rot\<rparr>;
             odom3 = odom2\<lparr>Twist_Twist_Linear :=
                       vec_div (UnrotateVector (Pose_Pose_Orientation odom2)
                                  (vec_sub pos previousEstimatedPos)) InDeltaTime\<rparr>;
             odom4 = odom3\<lparr>Twist_Twist_Angular :=
                       vec_div (euler (GetNormalized
                                  (quat_mul rot (Inverse previousEstimatedRot)))) InDeltaTime\<rparr>;
             odom5 = odom4\<lparr>Pose_Pose_Orientation :=
                       quat_mul (Pose_Pose_Orientation odom4) (Rotation (RootOffset s))\<rparr>
         in s\<lparr>PreviousTransform :=
                 (PreviousTransform s)\<lparr>Translation := pos0, Rotation := rot0\<rparr>,
              PreviousNoisyTransform :=
                 (PreviousNoisyTransform s)\<lparr>Translation := pos, Rotation := rot\<rparr>,
              OdomData := odom5\<rparr>))"

definition SensorUpdate ::
  "(real \<Rightarrow> 'stamp) \<Rightarrow> (FQuat \<Rightarrow> FVector) \<Rightarrow> 'stamp URRBaseOdomComponent \<Rightarrow> Tick
     \<Rightarrow> 'stamp URRBaseOdomComponent" where
  "SensorUpdate toStamp euler s w =
     (if \<not> bManualUpdate s
      then (let currentTime = TimeSeconds w
            in (UpdateOdom toStamp euler s w (currentTime - LastUpdatedTime s))
                 \<lparr>LastUpdatedTime := currentTime\<rparr>)
      else s)"

definition GetOdomTF :: "'stamp URRBaseOdomComponent \<Rightarrow> FQuat \<times> FVector" where
  "GetOdomTF s = (Pose_Pose_Orientation (OdomData s), Pose_Pose_Position (OdomData s))"

text \<open>A run of \<open>UpdateOdom\<close> calls, each with what it reads and its \<open>InDeltaTime\<close>.\<close>

fun UpdateOdom_run ::
  "(real \<Rightarrow> 'stamp) \<Rightarrow> (FQuat \<Rightarrow> FVector) \<Rightarrow> 'stamp URRBaseOdomComponent
     \<Rightarrow> (Tick \<times> real) list \<Rightarrow> 'stamp URRBaseOdomComponent" where
  "UpdateOdom_run toStamp euler s [] = s"
| "UpdateOdom_run toStamp euler s ((w, dt) # ticks) =
     UpdateOdom_run toStamp euler (UpdateOdom toStamp euler s w dt) ticks"

section \<open>The mesh actor\<close>

type_synonym int32 = "32 word"

datatype FIntVector = FIntVector int32 int32 int32

definition INDEX_NONE :: int32 where
  "INDEX_NONE = - 1"

definition IntVector_ZeroValue :: FIntVector where
  "IntVector_ZeroValue = FIntVector 0 0 0"

definition IntVector_NoneValue :: FIntVector where
  "IntVector_NoneValue = FIntVector INDEX_NONE INDEX_NONE INDEX_NONE"

text \<open>
  The fields of the actor that \<open>SetActivated\<close> and \<open>IsActivated\<close> read or write.
  Everything else the actor holds (its mesh components, a subclass's fields) is the
  extension part of the record.
\<close>

record ARRMeshActor =
  CellIdx :: FIntVector
  MeshActorLocation :: FVector
  bHiddenInGame :: bool

text \<open>
  \<open>SetActivated\<close>.  \<open>VISUAL_DEBUG\<close> is the value of the macro
  \<open>RAPYUTA_SIM_VISUAL_DEBUG\<close>; \<open>OnDeactivated\<close> is the delegate, \<open>None\<close> when it is
  not bound; \<open>SetCustomDepthEnabled\<close> is the member function of that name, whose body is
  in the actor's implementation file.
\<close>

definition SetActivated ::
  "bool \<Rightarrow> ('a ARRMeshActor_scheme \<Rightarrow> 'a ARRMeshActor_scheme) option
     \<Rightarrow> (bool \<Rightarrow> 'a ARRMeshActor_scheme \<Rightarrow> 'a ARRMeshActor_scheme)
     \<Rightarrow> bool \<Rightarrow> 'a ARRMeshActor_scheme \<Rightarrow> 'a ARRMeshActor_scheme" where
  "SetActivated VISUAL_DEBUG OnDeactivated SetCustomDepthEnabled bInIsActivated a =
     (let a1 = (if VISUAL_DEBUG then a\<lparr>bHiddenInGame := \<not> bInIsActivated\<rparr> else a);
          a2 = (if \<not> bInIsActivated
                then (let a' = a1\<lparr>CellIdx := IntVector_NoneValue\<rparr>;
                          a'' = a'\<lparr>MeshActorLocation := FVector 0 0 (- 5000)\<rparr>
                      in (case OnDeactivated of None \<Rightarrow> a'' | Some f \<Rightarrow> f a''))
                else if CellIdx a1 = IntVector_NoneValue
                then a1\<lparr>CellIdx := IntVector_ZeroValue\<rparr>
                else a1)
      in SetCustomDepthEnabled bInIsActivated a2)"

definition IsActivated :: "'a ARRMeshActor_scheme \<Rightarrow> bool" where
  "IsActivated a = (CellIdx a \<noteq> IntVector_NoneValue)"

text \<open>A callback leaves the cell index and the actor's location as they are.\<close>

definition keeps_cell_and_location ::
  "('a ARRMeshActor_scheme \<Rightarrow> 'a ARRMeshActor_scheme) \<Rightarrow> bool" where
  "keeps_cell_and_location f =
     (\<forall>a. CellIdx (f a) = CellIdx a \<and> MeshActorLocation (f a) = MeshActorLocation a)"


section \<open>Auxiliary definitions for the statements\<close>

text \<open>The component right after the lazy-initialisation prelude of \<open>UpdateOdom\<close>.\<close>

definition lazy_init ::
  "'stamp URRBaseOdomComponent \<Rightarrow> Tick \<Rightarrow> 'stamp URRBaseOdomComponent" where
  "lazy_init s w = (if \<not> bIsOdomInitialized s then InitOdom s w else s)"

text \<open>
  The ground-truth pose of a tick expressed relative to \<open>InitialTransform\<close>, the way
  \<open>UpdateOdom\<close> expresses it.
\<close>

definition truePosLocal :: "'stamp URRBaseOdomComponent \<Rightarrow> Tick \<Rightarrow> FVector" where
  "truePosLocal s w =
     UnrotateVector (Rotation (InitialTransform s))
       (vec_sub (ActorLocation w) (Translation (InitialTransform s)))"

definition trueRotLocal :: "'stamp URRBaseOdomComponent \<Rightarrow> Tick \<Rightarrow> FQuat" where
  "trueRotLocal s w = quat_mul (ActorQuat w) (Inverse (Rotation (InitialTransform s)))"

text \<open>The diagonal of a row-major 6 by 6 covariance array.\<close>

definition CovarianceDiagonal :: "(nat \<Rightarrow> real) \<Rightarrow> real list" where
  "CovarianceDiagonal c = map (\<lambda>i. c (6 * i + i)) [0, 1, 2, 3, 4, 5]"

text \<open>
  The state of a component that runs without noise: the noisy and the true previous
  transform coincide, and the stored rotations are unit quaternions.
\<close>

definition passthrough_inv :: "'stamp URRBaseOdomComponent \<Rightarrow> bool" where
  "passthrough_inv s =
     (bIsOdomInitialized s \<and> \<not> bWithNoise s
      \<and> PreviousNoisyTransform s = PreviousTransform s
      \<and> SizeSquared (Rotation (PreviousTransform s)) = 1
      \<and> SizeSquared (Rotation (InitialTransform s)) = 1)"

subsection \<open>Concrete data for the instances\<close>

definition TransformIdentity :: FTransform where
  "TransformIdentity =
     \<lparr>Rotation = QuatIdentity, Translation = ZeroVector, Scale3D = FVector 1 1 1\<rparr>"

text \<open>
  A component before \<open>InitOdom\<close>, with the given odometry source, noise switch and root
  offset, identity transforms and a zeroed message.  Its stamps are plain seconds.
\<close>

definition example_component ::
  "EOdomSource \<Rightarrow> bool \<Rightarrow> FTransform \<Rightarrow> real URRBaseOdomComponent" where
  "example_component src noise offset =
     \<lparr>bManualUpdate = True, LastUpdatedTime = 0, FrameId = ''odom'',
      ChildFrameId = ''base_footprint'', OdomSource = src, bWithNoise = noise,
      NoiseMeanPos = 0, NoiseVariancePos = 1 / 100, NoiseMeanRot = 0,
      NoiseVarianceRot = 1 / 20,
      GaussianRNGPosition = (0, 1), GaussianRNGRotation = (0, 1),
      InitialTransform = TransformIdentity, PreviousTransform = TransformIdentity,
      PreviousNoisyTransform = TransformIdentity, RootOffset = offset,
      bIsOdomInitialized = False,
      OdomData = \<lparr>Header_Stamp = 0, Header_FrameId = [], Msg_ChildFrameId = [],
                  Pose_Pose_Position = ZeroVector, Pose_Pose_Orientation = QuatIdentity,
                  Pose_Covariance = (\<lambda>i. 0), Twist_Twist_Linear = ZeroVector,
                  Twist_Twist_Angular = ZeroVector, Twist_Covariance = (\<lambda>i. 0)\<rparr>\<rparr>"

text \<open>A tick at time \<open>t\<close> with the owner at \<open>loc\<close>, \<open>q\<close>; every draw is \<open>draw\<close>.\<close>

definition example_tick :: "real \<Rightarrow> FVector \<Rightarrow> FQuat \<Rightarrow> real \<Rightarrow> Tick" where
  "example_tick t loc q draw =
     \<lparr>TimeSeconds = t, ActorLocation = loc, ActorQuat = q,
      PositionDrawX = draw, PositionDrawY = draw, RotationDraw = draw\<rparr>"

definition example_euler :: "FQuat \<Rightarrow> FVector" where
  "example_euler q = ZeroVector"

text \<open>A component that is ticked by \<open>SensorUpdate\<close>: world source, no noise.\<close>

definition example_ticking_component :: "real URRBaseOdomComponent" where
  "example_ticking_component =
     (example_component WORLD False TransformIdentity)\<lparr>bManualUpdate := False\<rparr>"

definition example_offset :: FTransform where
  "example_offset =
     \<lparr>Rotation = FQuat 0 1 0 0, Translation = FVector 1 0 0, Scale3D = FVector 1 1 1\<rparr>"

text \<open>
  A mesh actor in cell (2, 3, 0); a delegate that hides the actor it is told about; and
  a \<open>SetCustomDepthEnabled\<close> for an actor without mesh components.
\<close>

definition example_actor :: ARRMeshActor where
  "example_actor =
     \<lparr>CellIdx = FIntVector 2 3 0, MeshActorLocation = FVector 10 20 30,
      bHiddenInGame = False\<rparr>"

definition example_delegate :: "ARRMeshActor \<Rightarrow> ARRMeshActor" where
  "example_delegate a = a\<lparr>bHiddenInGame := True\<rparr>"

text \<open>A delegate that puts the actor it is told about back into cell (0, 0, 0).\<close>

definition example_reset_delegate :: "ARRMeshActor \<Rightarrow> ARRMeshActor" where
  "example_reset_delegate a = a\<lparr>CellIdx := IntVector_ZeroValue\<rparr>"

definition example_SetCustomDepthEnabled :: "bool \<Rightarrow> ARRMeshActor \<Rightarrow> ARRMeshActor" where
  "example_SetCustomDepthEnabled b a = a"


section \<open>Facts about the engine operations\<close>

lemma SizeSquared_quat_mul: "SizeSquared (quat_mul p q) = SizeSquared p * SizeSquared q"
  by (cases p; cases q) (simp add: algebra_simps)

lemma SizeSquared_scaled:
  "SizeSquared (FQuat (x * k) (y * k) (z * k) (w * k)) =
     (x * x + y * y + z * z + w * w) * (k * k)"
  by (simp add: algebra_simps)

lemma SizeSquared_Normalize: "SizeSquared (Normalize q) = 1"
proof (cases q)
  case (FQuat x y z w)
  define S where "S = x * x + y * y + z * z + w * w"
  show ?thesis
  proof (cases "S \<ge> SMALL_NUMBER")
    case True
    then have pos: "0 < S" by (simp add: SMALL_NUMBER_def)
    have "Normalize q =
            FQuat (x * (1 / sqrt S)) (y * (1 / sqrt S)) (z * (1 / sqrt S)) (w * (1 / sqrt S))"
      using True FQuat unfolding S_def by (simp only: Normalize.simps Let_def if_True)
    then have "SizeSquared (Normalize q) = S * ((1 / sqrt S) * (1 / sqrt S))"
      unfolding S_def by (simp only: SizeSquared_scaled)
    also have "\<dots> = S * (1 / S)" using pos by simp
    also have "\<dots> = 1" using pos by simp
    finally show ?thesis .
  next
    case False
    then have "Normalize q = QuatIdentity"
      using FQuat unfolding S_def by (simp only: Normalize.simps Let_def if_False)
    then show ?thesis by (simp add: QuatIdentity_def)
  qed
qed

lemma Normalize_unit: "SizeSquared q = 1 \<Longrightarrow> Normalize q = q"
  by (cases q) (simp add: Let_def SMALL_NUMBER_def)

lemma quat_mul_Inverse: "SizeSquared q = 1 \<Longrightarrow> quat_mul q (Inverse q) = QuatIdentity"
  by (cases q) (simp add: QuatIdentity_def algebra_simps)

lemma quat_mul_Identity_left: "quat_mul QuatIdentity q = q"
  by (cases q) (simp add: QuatIdentity_def)

lemma SizeSquared_Inverse: "SizeSquared (Inverse q) = SizeSquared q"
  by (cases q) simp

lemma SizeSquared_Identity: "SizeSquared QuatIdentity = 1"
  by (simp add: QuatIdentity_def)

lemma Quaternion_zero: "Quaternion (FRotator 0 0 0) = QuatIdentity"
  by (simp add: Quaternion_def Fmod_def trunc_def QuatIdentity_def)

lemma vec_sub_self: "vec_sub v v = ZeroVector"
  by (cases v) (simp add: ZeroVector_def)

lemma UnrotateVector_Zero: "UnrotateVector q ZeroVector = ZeroVector"
  by (cases q) (simp add: ZeroVector_def Let_def)

lemma vec_add_Zero_right: "vec_add v ZeroVector = v"
  by (cases v) (simp add: ZeroVector_def)

lemma vec_add_Zero_left: "vec_add ZeroVector v = v"
  by (cases v) (simp add: ZeroVector_def)

lemma vec_scale_0: "vec_scale 0 v = ZeroVector"
  by (cases v) (simp add: ZeroVector_def)


section \<open>What \<open>InitOdom\<close> and \<open>UpdateOdom\<close> write\<close>

lemma InitOdom_initialized: "bIsOdomInitialized (InitOdom s w)"
  by (simp add: InitOdom_def Let_def)

lemma InitOdom_frame:
  "RootOffset (InitOdom s w) = RootOffset s"
  "bWithNoise (InitOdom s w) = bWithNoise s"
  "PreviousTransform (InitOdom s w) = InitialTransform (InitOdom s w)"
  "PreviousNoisyTransform (InitOdom s w) = InitialTransform (InitOdom s w)"
  by (simp_all add: InitOdom_def Let_def)

lemma InitOdom_Covariance:
  "Pose_Covariance (OdomData (InitOdom s w)) = InitCovariance (Pose_Covariance (OdomData s))"
  "Twist_Covariance (OdomData (InitOdom s w)) = InitCovariance (Twist_Covariance (OdomData s))"
  by (simp_all add: InitOdom_def Let_def)

lemma lazy_init_initialized: "bIsOdomInitialized s \<Longrightarrow> lazy_init s w = s"
  by (simp add: lazy_init_def)

lemma lazy_init_frame:
  "RootOffset (lazy_init s w) = RootOffset s"
  "bWithNoise (lazy_init s w) = bWithNoise s"
  by (simp_all add: lazy_init_def InitOdom_frame)

lemma UpdateOdom_guard:
  "dt < float_1e_09 \<Longrightarrow> UpdateOdom toStamp euler s w dt = lazy_init s w"
  by (simp add: UpdateOdom_def lazy_init_def)

lemma UpdateOdom_PreviousNoisy_Rotation:
  "\<not> dt < float_1e_09 \<Longrightarrow>
   Rotation (PreviousNoisyTransform (UpdateOdom toStamp euler s w dt)) =
     Normalize
       (quat_mul
          (quat_mul
             (quat_mul (Quaternion (noiseRot (lazy_init s w) w))
                (Rotation (PreviousNoisyTransform (lazy_init s w))))
             (Inverse (Rotation (PreviousTransform (lazy_init s w)))))
          (trueRotLocal (lazy_init s w) w))"
  by (simp add: UpdateOdom_def lazy_init_def trueRotLocal_def Let_def)

lemma UpdateOdom_PreviousNoisy_Translation:
  "\<not> dt < float_1e_09 \<Longrightarrow>
   Translation (PreviousNoisyTransform (UpdateOdom toStamp euler s w dt)) =
     vec_add (truePosLocal (lazy_init s w) w)
       (vec_add
          (vec_sub (Translation (PreviousNoisyTransform (lazy_init s w)))
             (Translation (PreviousTransform (lazy_init s w))))
          (vec_scale (of_bool (bWithNoise (lazy_init s w)))
             (FVector (PositionDrawX w) (PositionDrawY w) 0)))"
  by (simp add: UpdateOdom_def lazy_init_def truePosLocal_def Let_def)

lemma UpdateOdom_PreviousNoisy_Scale3D:
  "Scale3D (PreviousNoisyTransform (UpdateOdom toStamp euler s w dt)) =
     Scale3D (PreviousNoisyTransform (lazy_init s w))"
  by (simp add: UpdateOdom_def lazy_init_def Let_def)

lemma UpdateOdom_PreviousTransform:
  "\<not> dt < float_1e_09 \<Longrightarrow>
   PreviousTransform (UpdateOdom toStamp euler s w dt) =
     (PreviousTransform (lazy_init s w))
       \<lparr>Translation := truePosLocal (lazy_init s w) w,
        Rotation := trueRotLocal (lazy_init s w) w\<rparr>"
  by (simp add: UpdateOdom_def lazy_init_def truePosLocal_def trueRotLocal_def Let_def)

lemma UpdateOdom_Orientation:
  "\<not> dt < float_1e_09 \<Longrightarrow>
   Pose_Pose_Orientation (OdomData (UpdateOdom toStamp euler s w dt)) =
     quat_mul (Rotation (PreviousNoisyTransform (UpdateOdom toStamp euler s w dt)))
       (Rotation (RootOffset s))"
  by (simp add: UpdateOdom_def lazy_init_def Let_def InitOdom_def)

lemma UpdateOdom_Position:
  "\<not> dt < float_1e_09 \<Longrightarrow>
   Pose_Pose_Position (OdomData (UpdateOdom toStamp euler s w dt)) =
     vec_add (Translation (PreviousNoisyTransform (UpdateOdom toStamp euler s w dt)))
       (Translation (RootOffset s))"
  by (simp add: UpdateOdom_def lazy_init_def Let_def InitOdom_def)

lemma UpdateOdom_Twist_Linear:
  "\<not> dt < float_1e_09 \<Longrightarrow>
   Twist_Twist_Linear (OdomData (UpdateOdom toStamp euler s w dt)) =
     vec_div
       (UnrotateVector (Rotation (PreviousNoisyTransform (UpdateOdom toStamp euler s w dt)))
          (vec_sub (Translation (PreviousNoisyTransform (UpdateOdom toStamp euler s w dt)))
             (Translation (PreviousNoisyTransform (lazy_init s w))))) dt"
  by (simp add: UpdateOdom_def lazy_init_def Let_def)

lemma UpdateOdom_Twist_Angular:
  "\<not> dt < float_1e_09 \<Longrightarrow>
   Twist_Twist_Angular (OdomData (UpdateOdom toStamp euler s w dt)) =
     vec_div
       (euler (GetNormalized
          (quat_mul (Rotation (PreviousNoisyTransform (UpdateOdom toStamp euler s w dt)))
             (Inverse (Rotation (PreviousNoisyTransform (lazy_init s w))))))) dt"
  by (simp add: UpdateOdom_def lazy_init_def Let_def)

lemma UpdateOdom_frame:
  "InitialTransform (UpdateOdom toStamp euler s w dt) = InitialTransform (lazy_init s w)"
  "RootOffset (UpdateOdom toStamp euler s w dt) = RootOffset s"
  "bWithNoise (UpdateOdom toStamp euler s w dt) = bWithNoise s"
  "bIsOdomInitialized (UpdateOdom toStamp euler s w dt)"
  "Pose_Covariance (OdomData (UpdateOdom toStamp euler s w dt)) =
     Pose_Covariance (OdomData (lazy_init s w))"
  "Twist_Covariance (OdomData (UpdateOdom toStamp euler s w dt)) =
     Twist_Covariance (OdomData (lazy_init s w))"
  by (simp_all add: UpdateOdom_def lazy_init_def Let_def InitOdom_def)

lemma SensorUpdate_below_guard:
  "bIsOdomInitialized s \<Longrightarrow> \<not> bManualUpdate s \<Longrightarrow>
   TimeSeconds w - LastUpdatedTime s < float_1e_09 \<Longrightarrow>
   SensorUpdate toStamp euler s w = s\<lparr>LastUpdatedTime := TimeSeconds w\<rparr>"
  by (simp add: SensorUpdate_def UpdateOdom_def)


section \<open>Initialisation\<close>

text \<open>
  Claim C8.  With the odometry source \<open>WORLD\<close>, \<open>InitOdom\<close> sets \<open>InitialTransform\<close> to
  zero translation and identity rotation, wherever the owner actor is.
\<close>

theorem InitOdom_WORLD_InitialTransform_identity:
  "OdomSource s = WORLD \<Longrightarrow>
   Translation (InitialTransform (InitOdom s w)) = ZeroVector \<and>
   Rotation (InitialTransform (InitOdom s w)) = QuatIdentity"
  by (simp add: InitOdom_def Let_def)

text \<open>An instance of C8: a body that starts at (3, 4, 5), turned half-way round.\<close>

theorem InitOdom_WORLD_InitialTransform_identity_witness:
  "OdomSource (example_component WORLD True TransformIdentity) = WORLD \<and>
   Translation (InitialTransform (InitOdom (example_component WORLD True TransformIdentity)
      (example_tick 2 (FVector 3 4 5) (FQuat 0 0 1 0) 0))) = ZeroVector \<and>
   Rotation (InitialTransform (InitOdom (example_component WORLD True TransformIdentity)
      (example_tick 2 (FVector 3 4 5) (FQuat 0 0 1 0) 0))) = QuatIdentity"
proof -
  have h: "OdomSource (example_component WORLD True TransformIdentity) = WORLD"
    by (simp add: example_component_def)
  from InitOdom_WORLD_InitialTransform_identity [OF h] h show ?thesis by blast
qed

text \<open>
  Claim C1.  The claim is that with the source \<open>ENCODER\<close> the pose emitted right after
  \<open>InitOdom\<close> is the origin.  \<open>InitOdom\<close> copies the owner's world pose into
  \<open>InitialTransform\<close> and then into the message: for a body that starts at (1, 2, 3),
  turned half-way round about the vertical axis, the message holds exactly that pose,
  which is not the origin.  The first \<open>UpdateOdom\<close> of the same, unmoved body does emit the
  zero position.
\<close>

theorem InitOdom_ENCODER_emits_world_pose:
  "Pose_Pose_Position (OdomData (InitOdom (example_component ENCODER False TransformIdentity)
      (example_tick 0 (FVector 1 2 3) (FQuat 0 0 1 0) 0))) = FVector 1 2 3 \<and>
   Pose_Pose_Orientation (OdomData (InitOdom (example_component ENCODER False TransformIdentity)
      (example_tick 0 (FVector 1 2 3) (FQuat 0 0 1 0) 0))) = FQuat 0 0 1 0 \<and>
   FVector 1 2 3 \<noteq> ZeroVector \<and> FQuat 0 0 1 0 \<noteq> QuatIdentity \<and>
   Pose_Pose_Position (OdomData (UpdateOdom (\<lambda>t. t) example_euler
      (InitOdom (example_component ENCODER False TransformIdentity)
         (example_tick 0 (FVector 1 2 3) (FQuat 0 0 1 0) 0))
      (example_tick 1 (FVector 1 2 3) (FQuat 0 0 1 0) 0) 1)) = ZeroVector"
proof -
  let ?s = "InitOdom (example_component ENCODER False TransformIdentity)
      (example_tick 0 (FVector 1 2 3) (FQuat 0 0 1 0) 0)"
  have i: "Pose_Pose_Position (OdomData ?s) = FVector 1 2 3"
    "Pose_Pose_Orientation (OdomData ?s) = FQuat 0 0 1 0"
    by (simp_all add: InitOdom_def Let_def example_component_def example_tick_def)
  have n: "FVector 1 2 3 \<noteq> ZeroVector" "FQuat 0 0 1 0 \<noteq> QuatIdentity"
    by (simp_all add: ZeroVector_def QuatIdentity_def)
  have u: "Pose_Pose_Position (OdomData (UpdateOdom (\<lambda>t. t) example_euler ?s
      (example_tick 1 (FVector 1 2 3) (FQuat 0 0 1 0) 0) 1)) = ZeroVector"
    by (simp add: UpdateOdom_def InitOdom_def example_component_def example_tick_def
        TransformIdentity_def ZeroVector_def QuatIdentity_def Let_def float_1e_09_def)
  from i n u show ?thesis by simp
qed


section \<open>The guard on the elapsed time\<close>

lemma SensorUpdate_OdomData:
  "\<not> bManualUpdate s \<Longrightarrow>
   OdomData (SensorUpdate toStamp euler s w) =
     OdomData (UpdateOdom toStamp euler s w (TimeSeconds w - LastUpdatedTime s))"
  by (simp add: SensorUpdate_def Let_def)

lemma SensorUpdate_LastUpdatedTime:
  "LastUpdatedTime (SensorUpdate toStamp euler s w) =
     (if bManualUpdate s then LastUpdatedTime s else TimeSeconds w)"
  by (simp add: SensorUpdate_def Let_def)

text \<open>
  Claim C2, amended.  On an initialised component, a call of \<open>UpdateOdom\<close> with
  \<open>InDeltaTime\<close> strictly below the single-precision \<open>1e-9f\<close> changes nothing.  A
  \<open>SensorUpdate\<close> whose elapsed time is strictly below \<open>1e-9f\<close> leaves every field of the
  message as it was, and leaves \<open>LastUpdatedTime\<close> at the current time (at its old value
  only when the component is updated manually).
\<close>

theorem update_below_guard_unchanged:
  assumes "bIsOdomInitialized s"
  shows
    "(dt < float_1e_09 \<longrightarrow>
        OdomData (UpdateOdom toStamp euler s w dt) = OdomData s \<and>
        UpdateOdom toStamp euler s w dt = s) \<and>
     (TimeSeconds w - LastUpdatedTime s < float_1e_09 \<longrightarrow>
        OdomData (SensorUpdate toStamp euler s w) = OdomData s \<and>
        LastUpdatedTime (SensorUpdate toStamp euler s w) =
          (if bManualUpdate s then LastUpdatedTime s else TimeSeconds w))"
proof (intro conjI impI)
  assume "dt < float_1e_09"
  then show u: "UpdateOdom toStamp euler s w dt = s"
    by (simp add: UpdateOdom_guard lazy_init_initialized [OF assms])
  then show "OdomData (UpdateOdom toStamp euler s w dt) = OdomData s" by simp
next
  assume g: "TimeSeconds w - LastUpdatedTime s < float_1e_09"
  show "OdomData (SensorUpdate toStamp euler s w) = OdomData s"
  proof (cases "bManualUpdate s")
    case True
    then show ?thesis by (simp add: SensorUpdate_def)
  next
    case False
    then show ?thesis
      by (simp add: SensorUpdate_OdomData UpdateOdom_guard [OF g]
          lazy_init_initialized [OF assms])
  qed
next
  show "LastUpdatedTime (SensorUpdate toStamp euler s w) =
      (if bManualUpdate s then LastUpdatedTime s else TimeSeconds w)"
    by (rule SensorUpdate_LastUpdatedTime)
qed

text \<open>
  An instance of the amended C2: a component initialised at time 0 whose owner has since
  moved, called again with no elapsed time, and ticked again after \<open>2^-30\<close> seconds.
\<close>

theorem update_below_guard_unchanged_witness:
  "bIsOdomInitialized (InitOdom example_ticking_component
       (example_tick 0 ZeroVector QuatIdentity 0)) \<and>
   (0::real) < float_1e_09 \<and>
   UpdateOdom (\<lambda>t. t) example_euler
     (InitOdom example_ticking_component (example_tick 0 ZeroVector QuatIdentity 0))
     (example_tick (1 / 2 ^ 30) (FVector 4 5 6) QuatIdentity 1) 0 =
     InitOdom example_ticking_component (example_tick 0 ZeroVector QuatIdentity 0) \<and>
   TimeSeconds (example_tick (1 / 2 ^ 30) (FVector 4 5 6) QuatIdentity 1) -
     LastUpdatedTime (InitOdom example_ticking_component
       (example_tick 0 ZeroVector QuatIdentity 0)) < float_1e_09 \<and>
   OdomData (SensorUpdate (\<lambda>t. t) example_euler
     (InitOdom example_ticking_component (example_tick 0 ZeroVector QuatIdentity 0))
     (example_tick (1 / 2 ^ 30) (FVector 4 5 6) QuatIdentity 1)) =
     OdomData (InitOdom example_ticking_component
       (example_tick 0 ZeroVector QuatIdentity 0)) \<and>
   LastUpdatedTime (SensorUpdate (\<lambda>t. t) example_euler
     (InitOdom example_ticking_component (example_tick 0 ZeroVector QuatIdentity 0))
     (example_tick (1 / 2 ^ 30) (FVector 4 5 6) QuatIdentity 1)) = 1 / 2 ^ 30"
proof -
  let ?s = "InitOdom example_ticking_component (example_tick 0 ZeroVector QuatIdentity 0)"
  let ?w = "example_tick (1 / 2 ^ 30) (FVector 4 5 6) QuatIdentity 1"
  have i: "bIsOdomInitialized ?s" by (rule InitOdom_initialized)
  have g: "(0::real) < float_1e_09" by (simp add: float_1e_09_def)
  have e: "TimeSeconds ?w - LastUpdatedTime ?s < float_1e_09"
    by (simp add: InitOdom_def Let_def example_tick_def float_1e_09_def)
  have m: "\<not> bManualUpdate ?s"
    by (simp add: InitOdom_def Let_def example_ticking_component_def)
  have t: "TimeSeconds ?w = 1 / 2 ^ 30" by (simp add: example_tick_def)
  note th = update_below_guard_unchanged [OF i, of 0 "\<lambda>t. t" example_euler ?w]
  from th g have u: "UpdateOdom (\<lambda>t. t) example_euler ?s ?w 0 = ?s" by blast
  from th e have o: "OdomData (SensorUpdate (\<lambda>t. t) example_euler ?s ?w) = OdomData ?s"
    by blast
  from th e have "LastUpdatedTime (SensorUpdate (\<lambda>t. t) example_euler ?s ?w) =
      (if bManualUpdate ?s then LastUpdatedTime ?s else TimeSeconds ?w)"
    by blast
  then have lt: "LastUpdatedTime (SensorUpdate (\<lambda>t. t) example_euler ?s ?w) = 1 / 2 ^ 30"
    by (simp only: m if_False t)
  from i g u e o lt show ?thesis by blast
qed

text \<open>
  Claim C2 as stated fails twice, on a component initialised at time 0 and ticked by
  \<open>SensorUpdate\<close>.  The guard compares with the single-precision \<open>1e-9f\<close>, strictly: a
  tick after exactly that time, which is not above \<open>1e-9\<close>, runs the whole update, and for
  a body that has moved to (1, 0, 0) the message changes; so does a direct call of
  \<open>UpdateOdom\<close> with that \<open>InDeltaTime\<close>.  And a tick after \<open>2^-30\<close> seconds, which the
  guard stops, still moves \<open>LastUpdatedTime\<close>.
\<close>

theorem update_at_guard_counterexample:
  "bIsOdomInitialized (InitOdom example_ticking_component
       (example_tick 0 ZeroVector QuatIdentity 0)) \<and>
   TimeSeconds (example_tick float_1e_09 (FVector 1 0 0) QuatIdentity 0) -
     LastUpdatedTime (InitOdom example_ticking_component
       (example_tick 0 ZeroVector QuatIdentity 0)) = float_1e_09 \<and>
   float_1e_09 \<le> 1 / 10 ^ 9 \<and>
   OdomData (SensorUpdate (\<lambda>t. t) example_euler
     (InitOdom example_ticking_component (example_tick 0 ZeroVector QuatIdentity 0))
     (example_tick float_1e_09 (FVector 1 0 0) QuatIdentity 0))
     \<noteq> OdomData (InitOdom example_ticking_component
       (example_tick 0 ZeroVector QuatIdentity 0)) \<and>
   OdomData (UpdateOdom (\<lambda>t. t) example_euler
     (InitOdom example_ticking_component (example_tick 0 ZeroVector QuatIdentity 0))
     (example_tick float_1e_09 (FVector 1 0 0) QuatIdentity 0) float_1e_09)
     \<noteq> OdomData (InitOdom example_ticking_component
       (example_tick 0 ZeroVector QuatIdentity 0)) \<and>
   TimeSeconds (example_tick (1 / 2 ^ 30) ZeroVector QuatIdentity 0) -
     LastUpdatedTime (InitOdom example_ticking_component
       (example_tick 0 ZeroVector QuatIdentity 0)) = 1 / 2 ^ 30 \<and>
   (1 / 2 ^ 30 :: real) \<le> 1 / 10 ^ 9 \<and>
   LastUpdatedTime (SensorUpdate (\<lambda>t. t) example_euler
     (InitOdom example_ticking_component (example_tick 0 ZeroVector QuatIdentity 0))
     (example_tick (1 / 2 ^ 30) ZeroVector QuatIdentity 0))
     \<noteq> LastUpdatedTime (InitOdom example_ticking_component
       (example_tick 0 ZeroVector QuatIdentity 0))"
proof -
  let ?s = "InitOdom example_ticking_component (example_tick 0 ZeroVector QuatIdentity 0)"
  let ?w = "example_tick float_1e_09 (FVector 1 0 0) QuatIdentity 0"
  let ?v = "example_tick (1 / 2 ^ 30) ZeroVector QuatIdentity 0"
  have i: "bIsOdomInitialized ?s" by (rule InitOdom_initialized)
  have m: "\<not> bManualUpdate ?s"
    by (simp add: InitOdom_def Let_def example_ticking_component_def)
  have l: "LastUpdatedTime ?s = 0" by (simp add: InitOdom_def Let_def example_tick_def)
  have tw: "TimeSeconds ?w = float_1e_09" and tv: "TimeSeconds ?v = 1 / 2 ^ 30"
    by (simp_all add: example_tick_def)
  have dw: "TimeSeconds ?w - LastUpdatedTime ?s = float_1e_09"
    by (simp only: l tw diff_zero)
  have dv: "TimeSeconds ?v - LastUpdatedTime ?s = 1 / 2 ^ 30"
    by (simp only: l tv diff_zero)
  have b: "float_1e_09 \<le> 1 / 10 ^ 9" "(1 / 2 ^ 30 :: real) \<le> 1 / 10 ^ 9"
    by (simp_all add: float_1e_09_def)
  have g: "\<not> float_1e_09 < float_1e_09" by simp
  have p: "Pose_Pose_Position (OdomData (UpdateOdom (\<lambda>t. t) example_euler ?s ?w float_1e_09))
        = FVector 1 0 0"
    by (simp add: UpdateOdom_Position [OF g] UpdateOdom_PreviousNoisy_Translation [OF g]
        lazy_init_def truePosLocal_def InitOdom_def Let_def example_ticking_component_def
        example_component_def example_tick_def TransformIdentity_def ZeroVector_def
        QuatIdentity_def)
  have q: "Pose_Pose_Position (OdomData ?s) = FVector 0 0 0"
    by (simp add: InitOdom_def Let_def example_ticking_component_def example_component_def
        TransformIdentity_def ZeroVector_def)
  from p q have u: "OdomData (UpdateOdom (\<lambda>t. t) example_euler ?s ?w float_1e_09) \<noteq> OdomData ?s"
    by (metis FVector.inject zero_neq_one)
  have "OdomData (SensorUpdate (\<lambda>t. t) example_euler ?s ?w) =
      OdomData (UpdateOdom (\<lambda>t. t) example_euler ?s ?w float_1e_09)"
    by (simp only: SensorUpdate_OdomData [OF m] dw)
  with u have su: "OdomData (SensorUpdate (\<lambda>t. t) example_euler ?s ?w) \<noteq> OdomData ?s"
    by simp
  have "LastUpdatedTime (SensorUpdate (\<lambda>t. t) example_euler ?s ?v) = 1 / 2 ^ 30"
    by (simp only: SensorUpdate_LastUpdatedTime m if_False tv)
  then have lu: "LastUpdatedTime (SensorUpdate (\<lambda>t. t) example_euler ?s ?v) \<noteq> LastUpdatedTime ?s"
    by (simp add: l)
  from i dw b su u dv lu show ?thesis by blast
qed


section \<open>A run without noise\<close>

lemma noiseRot_fields:
  "Pitch (noiseRot s w) = 0"
  "Yaw (noiseRot s w) = 0"
  "Roll (noiseRot s w) = of_bool (bWithNoise s) * RotationDraw w"
  by (simp_all add: noiseRot_def)

lemma noiseRot_noise_off: "\<not> bWithNoise s \<Longrightarrow> Quaternion (noiseRot s w) = QuatIdentity"
  by (simp add: noiseRot_def Quaternion_zero)

lemma passthrough_step:
  assumes inv: "passthrough_inv s" and g: "\<not> dt < float_1e_09"
    and u: "SizeSquared (ActorQuat w) = 1"
  shows "passthrough_inv (UpdateOdom toStamp euler s w dt)"
    and "Translation (PreviousNoisyTransform (UpdateOdom toStamp euler s w dt)) =
           truePosLocal s w"
    and "Rotation (PreviousNoisyTransform (UpdateOdom toStamp euler s w dt)) =
           trueRotLocal s w"
proof -
  let ?s' = "UpdateOdom toStamp euler s w dt"
  from inv have i: "bIsOdomInitialized s" and n: "\<not> bWithNoise s"
    and eq: "PreviousNoisyTransform s = PreviousTransform s"
    and up: "SizeSquared (Rotation (PreviousTransform s)) = 1"
    and ui: "SizeSquared (Rotation (InitialTransform s)) = 1"
    by (simp_all add: passthrough_inv_def)
  have l: "lazy_init s w = s" using i by (rule lazy_init_initialized)
  have ut: "SizeSquared (trueRotLocal s w) = 1"
    by (simp add: trueRotLocal_def SizeSquared_quat_mul SizeSquared_Inverse u ui)
  show t: "Translation (PreviousNoisyTransform ?s') = truePosLocal s w"
    by (simp add: UpdateOdom_PreviousNoisy_Translation [OF g] l eq n
        vec_sub_self [unfolded ZeroVector_def] vec_add_Zero_right [unfolded ZeroVector_def])
  show r: "Rotation (PreviousNoisyTransform ?s') = trueRotLocal s w"
    by (simp add: UpdateOdom_PreviousNoisy_Rotation [OF g] l eq noiseRot_noise_off [OF n]
        quat_mul_Identity_left quat_mul_Inverse [OF up] Normalize_unit [OF ut])
  have p: "PreviousTransform ?s' =
      (PreviousTransform s)\<lparr>Translation := truePosLocal s w, Rotation := trueRotLocal s w\<rparr>"
    using UpdateOdom_PreviousTransform [OF g, of toStamp euler s w] by (simp add: l)
  have sc: "Scale3D (PreviousNoisyTransform ?s') = Scale3D (PreviousTransform s)"
    by (simp add: UpdateOdom_PreviousNoisy_Scale3D l eq)
  have e: "PreviousNoisyTransform ?s' = PreviousTransform ?s'"
    by (rule FTransform.equality) (simp_all add: p t r sc)
  show "passthrough_inv ?s'"
    unfolding passthrough_inv_def
    by (simp add: UpdateOdom_frame e l ui n) (simp add: p ut)
qed

lemma passthrough_InitOdom:
  "\<not> bWithNoise s \<Longrightarrow> SizeSquared (ActorQuat w) = 1 \<Longrightarrow> passthrough_inv (InitOdom s w)"
  by (simp add: passthrough_inv_def InitOdom_def Let_def SizeSquared_Identity)

lemma passthrough_run:
  "passthrough_inv s \<Longrightarrow>
   \<forall>(w, dt) \<in> set ticks. 1 / 10 ^ 9 < dt \<and> SizeSquared (ActorQuat w) = 1 \<Longrightarrow>
   passthrough_inv (UpdateOdom_run toStamp euler s ticks)"
proof (induction ticks arbitrary: s)
  case Nil
  then show ?case by simp
next
  case (Cons a ticks)
  obtain w dt where a: "a = (w, dt)" by (cases a)
  from Cons.prems(2) a have g: "\<not> dt < float_1e_09" and u: "SizeSquared (ActorQuat w) = 1"
    and rest: "\<forall>(w, dt) \<in> set ticks. 1 / 10 ^ 9 < dt \<and> SizeSquared (ActorQuat w) = 1"
    by (auto simp: float_1e_09_def)
  from Cons.IH [OF passthrough_step(1) [OF Cons.prems(1) g u] rest] a
  show ?case by simp
qed

lemma UpdateOdom_run_frame:
  "bIsOdomInitialized s \<Longrightarrow>
   InitialTransform (UpdateOdom_run toStamp euler s ticks) = InitialTransform s \<and>
   RootOffset (UpdateOdom_run toStamp euler s ticks) = RootOffset s"
proof (induction ticks arbitrary: s)
  case Nil
  then show ?case by simp
next
  case (Cons a ticks)
  obtain w dt where a: "a = (w, dt)" by (cases a)
  have i: "bIsOdomInitialized (UpdateOdom toStamp euler s w dt)" by (rule UpdateOdom_frame)
  from Cons.IH [OF i] a Cons.prems
  show ?case by (simp add: UpdateOdom_frame lazy_init_initialized)
qed

lemma UpdateOdom_run_append:
  "UpdateOdom_run toStamp euler s (xs @ ys) =
   UpdateOdom_run toStamp euler (UpdateOdom_run toStamp euler s xs) ys"
  by (induction xs arbitrary: s) auto

text \<open>
  Claim C3.  Take a component with the noise switched off, initialise it, and run any
  sequence of \<open>UpdateOdom\<close> calls, each with \<open>InDeltaTime\<close> above \<open>1e-9\<close> and with the owner's
  orientation a unit quaternion.  After the last call the noisy previous transform equals
  the true previous transform, the emitted position is the ground-truth position relative
  to \<open>InitialTransform\<close> plus the root offset's translation, and the emitted orientation is
  the ground-truth orientation relative to \<open>InitialTransform\<close> times the root offset's
  rotation.
\<close>

theorem noise_free_passthrough:
  assumes "\<not> bWithNoise s" and "SizeSquared (ActorQuat w0) = 1"
    and "\<forall>(w, dt) \<in> set ticks. 1 / 10 ^ 9 < dt \<and> SizeSquared (ActorQuat w) = 1"
    and "1 / 10 ^ 9 < dt" and "SizeSquared (ActorQuat w) = 1"
  shows
    "PreviousNoisyTransform (UpdateOdom_run toStamp euler (InitOdom s w0) (ticks @ [(w, dt)])) =
       PreviousTransform (UpdateOdom_run toStamp euler (InitOdom s w0) (ticks @ [(w, dt)])) \<and>
     Pose_Pose_Position
       (OdomData (UpdateOdom_run toStamp euler (InitOdom s w0) (ticks @ [(w, dt)]))) =
       vec_add (truePosLocal (InitOdom s w0) w) (Translation (RootOffset s)) \<and>
     Pose_Pose_Orientation
       (OdomData (UpdateOdom_run toStamp euler (InitOdom s w0) (ticks @ [(w, dt)]))) =
       quat_mul (trueRotLocal (InitOdom s w0) w) (Rotation (RootOffset s))"
proof -
  let ?m = "UpdateOdom_run toStamp euler (InitOdom s w0) ticks"
  have g: "\<not> dt < float_1e_09" using assms(4) by (simp add: float_1e_09_def)
  have im: "passthrough_inv ?m"
    by (rule passthrough_run [OF passthrough_InitOdom [OF assms(1) assms(2)] assms(3)])
  have fr: "InitialTransform ?m = InitialTransform (InitOdom s w0)"
    "RootOffset ?m = RootOffset s"
    using UpdateOdom_run_frame [OF InitOdom_initialized, of toStamp euler s w0 ticks]
    by (simp_all add: InitOdom_frame)
  have tl: "truePosLocal ?m w = truePosLocal (InitOdom s w0) w"
    "trueRotLocal ?m w = trueRotLocal (InitOdom s w0) w"
    by (simp_all add: truePosLocal_def trueRotLocal_def fr)
  have run: "UpdateOdom_run toStamp euler (InitOdom s w0) (ticks @ [(w, dt)]) =
      UpdateOdom toStamp euler ?m w dt"
    by (simp add: UpdateOdom_run_append)
  have "passthrough_inv (UpdateOdom toStamp euler ?m w dt)"
    by (rule passthrough_step(1) [OF im g assms(5)])
  then have e: "PreviousNoisyTransform (UpdateOdom toStamp euler ?m w dt) =
      PreviousTransform (UpdateOdom toStamp euler ?m w dt)"
    by (simp add: passthrough_inv_def)
  have p: "Pose_Pose_Position (OdomData (UpdateOdom toStamp euler ?m w dt)) =
      vec_add (truePosLocal (InitOdom s w0) w) (Translation (RootOffset s))"
    by (simp add: UpdateOdom_Position [OF g] passthrough_step(2) [OF im g assms(5)] tl fr)
  have q: "Pose_Pose_Orientation (OdomData (UpdateOdom toStamp euler ?m w dt)) =
      quat_mul (trueRotLocal (InitOdom s w0) w) (Rotation (RootOffset s))"
    by (simp add: UpdateOdom_Orientation [OF g] passthrough_step(3) [OF im g assms(5)] tl fr)
  from e p q show ?thesis by (simp only: run simp_thms)
qed

text \<open>
  An instance of C3: a body that starts at (1, 2, 3) turned half-way round, moves, and
  then turns back, over two updates.
\<close>

theorem noise_free_passthrough_witness:
  "\<not> bWithNoise (example_component ENCODER False example_offset) \<and>
   SizeSquared (ActorQuat (example_tick 0 (FVector 1 2 3) (FQuat 0 0 1 0) 7)) = 1 \<and>
   (1 / 10 ^ 9 :: real) < 1 \<and>
   SizeSquared (ActorQuat (example_tick 1 (FVector 2 2 3) (FQuat 0 0 1 0) 7)) = 1 \<and>
   (1 / 10 ^ 9 :: real) < 1 / 2 \<and>
   SizeSquared (ActorQuat (example_tick (3 / 2) (FVector 2 5 3) QuatIdentity 7)) = 1 \<and>
   PreviousNoisyTransform (UpdateOdom_run (\<lambda>t. t) example_euler
      (InitOdom (example_component ENCODER False example_offset)
         (example_tick 0 (FVector 1 2 3) (FQuat 0 0 1 0) 7))
      ([(example_tick 1 (FVector 2 2 3) (FQuat 0 0 1 0) 7, 1)] @
       [(example_tick (3 / 2) (FVector 2 5 3) QuatIdentity 7, 1 / 2)])) =
   PreviousTransform (UpdateOdom_run (\<lambda>t. t) example_euler
      (InitOdom (example_component ENCODER False example_offset)
         (example_tick 0 (FVector 1 2 3) (FQuat 0 0 1 0) 7))
      ([(example_tick 1 (FVector 2 2 3) (FQuat 0 0 1 0) 7, 1)] @
       [(example_tick (3 / 2) (FVector 2 5 3) QuatIdentity 7, 1 / 2)]))"
proof -
  have a: "\<not> bWithNoise (example_component ENCODER False example_offset)"
    by (simp add: example_component_def)
  have b: "SizeSquared (ActorQuat (example_tick 0 (FVector 1 2 3) (FQuat 0 0 1 0) 7)) = 1"
    by (simp add: example_tick_def)
  have c: "\<forall>(w, dt) \<in> set [(example_tick 1 (FVector 2 2 3) (FQuat 0 0 1 0) 7, 1 :: real)].
       1 / 10 ^ 9 < dt \<and> SizeSquared (ActorQuat w) = 1"
    by (simp add: example_tick_def)
  have d: "(1 / 10 ^ 9 :: real) < 1 / 2" by simp
  have e: "SizeSquared (ActorQuat (example_tick (3 / 2) (FVector 2 5 3) QuatIdentity 7)) = 1"
    by (simp add: example_tick_def QuatIdentity_def)
  have c1: "(1 / 10 ^ 9 :: real) < 1" by simp
  have c2: "SizeSquared (ActorQuat (example_tick 1 (FVector 2 2 3) (FQuat 0 0 1 0) 7)) = 1"
    by (simp add: example_tick_def)
  from noise_free_passthrough [OF a b c d e] a b c1 c2 d e show ?thesis by blast
qed


section \<open>The rotational noise\<close>

text \<open>
  Claim C4.  The claim is that the rotational noise is a rotation in yaw.  \<open>UpdateOdom\<close>
  passes the draw as the third argument of the rotator's constructor, which is the roll:
  with the noise on and a draw of 180 degrees the noise rotator has yaw 0 and roll 180,
  its quaternion is the half-turn about the forward axis and not the half-turn in yaw,
  and that is the rotation stored for a body that has not turned.
\<close>

theorem noiseRot_is_roll_not_yaw:
  "bWithNoise (InitOdom (example_component WORLD True TransformIdentity)
      (example_tick 0 ZeroVector QuatIdentity 0)) \<and>
   noiseRot (InitOdom (example_component WORLD True TransformIdentity)
      (example_tick 0 ZeroVector QuatIdentity 0))
      (example_tick 1 ZeroVector QuatIdentity 180) = FRotator 0 0 180 \<and>
   Yaw (FRotator 0 0 180) = 0 \<and> Roll (FRotator 0 0 180) = 180 \<and>
   Quaternion (FRotator 0 0 180) = FQuat (- 1) 0 0 0 \<and>
   Quaternion (FRotator 0 180 0) = FQuat 0 0 1 0 \<and>
   Rotation (PreviousNoisyTransform (UpdateOdom (\<lambda>t. t) example_euler
      (InitOdom (example_component WORLD True TransformIdentity)
         (example_tick 0 ZeroVector QuatIdentity 0))
      (example_tick 1 ZeroVector QuatIdentity 180) 1)) = FQuat (- 1) 0 0 0"
proof -
  let ?s = "InitOdom (example_component WORLD True TransformIdentity)
      (example_tick 0 ZeroVector QuatIdentity 0)"
  let ?w = "example_tick 1 ZeroVector QuatIdentity 180"
  have b: "bWithNoise ?s" by (simp add: InitOdom_frame example_component_def)
  have n: "noiseRot ?s ?w = FRotator 0 0 180"
    by (simp add: noiseRot_def InitOdom_frame example_component_def example_tick_def)
  have r: "Quaternion (FRotator 0 0 180) = FQuat (- 1) 0 0 0"
    by (simp add: Quaternion_def Fmod_def trunc_def)
  have y: "Quaternion (FRotator 0 180 0) = FQuat 0 0 1 0"
    by (simp add: Quaternion_def Fmod_def trunc_def)
  have g: "\<not> (1::real) < float_1e_09" by (simp add: float_1e_09_def)
  have l: "lazy_init ?s ?w = ?s" by (simp add: lazy_init_initialized InitOdom_initialized)
  have f: "Rotation (PreviousNoisyTransform ?s) = QuatIdentity"
    "Rotation (PreviousTransform ?s) = QuatIdentity"
    "trueRotLocal ?s ?w = QuatIdentity"
    by (simp_all add: trueRotLocal_def InitOdom_def Let_def example_component_def
        example_tick_def QuatIdentity_def)
  have u: "Rotation (PreviousNoisyTransform (UpdateOdom (\<lambda>t. t) example_euler ?s ?w 1))
      = FQuat (- 1) 0 0 0"
    unfolding UpdateOdom_PreviousNoisy_Rotation [OF g] l n r f
    by (simp add: QuatIdentity_def SMALL_NUMBER_def)
  from b n r y u show ?thesis by simp
qed


section \<open>The covariances\<close>

lemma CovarianceDiagonal_InitCovariance:
  "CovarianceDiagonal (InitCovariance c) =
     [float_1e_05, float_1e_05, 10 ^ 12, 10 ^ 12, 10 ^ 12, float_1e_03]"
  by (simp add: CovarianceDiagonal_def InitCovariance_def)

lemma UpdateOdom_Covariance_initialized:
  "bIsOdomInitialized s \<Longrightarrow>
   Pose_Covariance (OdomData (UpdateOdom toStamp euler s w dt)) =
     Pose_Covariance (OdomData s) \<and>
   Twist_Covariance (OdomData (UpdateOdom toStamp euler s w dt)) =
     Twist_Covariance (OdomData s)"
  by (simp add: UpdateOdom_frame lazy_init_initialized)

lemma UpdateOdom_run_Covariance:
  "bIsOdomInitialized s \<Longrightarrow>
   Pose_Covariance (OdomData (UpdateOdom_run toStamp euler s ticks)) =
     Pose_Covariance (OdomData s) \<and>
   Twist_Covariance (OdomData (UpdateOdom_run toStamp euler s ticks)) =
     Twist_Covariance (OdomData s)"
proof (induction ticks arbitrary: s)
  case Nil
  then show ?case by simp
next
  case (Cons a ticks)
  obtain w dt where a: "a = (w, dt)" by (cases a)
  have i: "bIsOdomInitialized (UpdateOdom toStamp euler s w dt)" by (rule UpdateOdom_frame)
  from Cons.IH [OF i] UpdateOdom_Covariance_initialized [OF Cons.prems] a
  show ?case by simp
qed

text \<open>
  Claim C5, amended.  After \<open>InitOdom\<close> and any sequence of \<open>UpdateOdom\<close> calls, whatever
  they read and whatever their \<open>InDeltaTime\<close>, the diagonal of the pose covariance and the
  diagonal of the twist covariance are both the values that \<open>InitOdom\<close> wrote: the
  single-precision \<open>1e-05f\<close> twice, \<open>1e12\<close> three times, the single-precision \<open>1e-03f\<close>.
\<close>

theorem Covariance_diagonals_fixed:
  "CovarianceDiagonal
     (Pose_Covariance (OdomData (UpdateOdom_run toStamp euler (InitOdom s w) ticks)))
     = [float_1e_05, float_1e_05, 10 ^ 12, 10 ^ 12, 10 ^ 12, float_1e_03] \<and>
   CovarianceDiagonal
     (Twist_Covariance (OdomData (UpdateOdom_run toStamp euler (InitOdom s w) ticks)))
     = [float_1e_05, float_1e_05, 10 ^ 12, 10 ^ 12, 10 ^ 12, float_1e_03] \<and>
   float_1e_05 = 2748779 / 2 ^ 38 \<and> float_1e_03 = 8589935 / 2 ^ 33"
  by (simp add: UpdateOdom_run_Covariance [OF InitOdom_initialized] InitOdom_Covariance
      CovarianceDiagonal_InitCovariance float_1e_05_def float_1e_03_def)

text \<open>
  Claim C5 as stated fails: right after \<open>InitOdom\<close> the diagonals are not the decimal
  numbers 1e-5, 1e-5, 1e12, 1e12, 1e12, 1e-3, because \<open>1e-05f\<close> lies below 1e-5 and
  \<open>1e-03f\<close> lies above 1e-3.
\<close>

theorem Covariance_diagonals_decimal_counterexample:
  "CovarianceDiagonal (Pose_Covariance (OdomData
      (InitOdom (example_component WORLD False TransformIdentity)
         (example_tick 0 ZeroVector QuatIdentity 0))))
     \<noteq> [1 / 10 ^ 5, 1 / 10 ^ 5, 10 ^ 12, 10 ^ 12, 10 ^ 12, 1 / 10 ^ 3] \<and>
   CovarianceDiagonal (Twist_Covariance (OdomData
      (InitOdom (example_component WORLD False TransformIdentity)
         (example_tick 0 ZeroVector QuatIdentity 0))))
     \<noteq> [1 / 10 ^ 5, 1 / 10 ^ 5, 10 ^ 12, 10 ^ 12, 10 ^ 12, 1 / 10 ^ 3] \<and>
   float_1e_05 < 1 / 10 ^ 5 \<and> 1 / 10 ^ 3 < float_1e_03"
  by (simp add: InitOdom_Covariance CovarianceDiagonal_InitCovariance float_1e_05_def
      float_1e_03_def)


section \<open>The emitted orientation\<close>

text \<open>
  Claim C6.  When the root offset's rotation is a unit quaternion, every \<open>UpdateOdom\<close>
  call that passes the guard stores a unit noisy rotation and emits a unit orientation.
\<close>

theorem UpdateOdom_Orientation_unit:
  assumes "SizeSquared (Rotation (RootOffset s)) = 1" and "\<not> dt < float_1e_09"
  shows "SizeSquared (Rotation (PreviousNoisyTransform (UpdateOdom toStamp euler s w dt))) = 1 \<and>
         SizeSquared (Pose_Pose_Orientation (OdomData (UpdateOdom toStamp euler s w dt))) = 1 \<and>
         Size (Pose_Pose_Orientation (OdomData (UpdateOdom toStamp euler s w dt))) = 1"
proof -
  have n: "SizeSquared (Rotation (PreviousNoisyTransform (UpdateOdom toStamp euler s w dt))) = 1"
    by (simp only: UpdateOdom_PreviousNoisy_Rotation [OF assms(2)] SizeSquared_Normalize)
  have e: "SizeSquared (Pose_Pose_Orientation (OdomData (UpdateOdom toStamp euler s w dt))) = 1"
    by (simp only: UpdateOdom_Orientation [OF assms(2)] SizeSquared_quat_mul n assms(1) mult_1)
  from n e show ?thesis by (simp add: Size_def)
qed

text \<open>
  An instance of C6: a lazily initialised component, noise on, an owner whose orientation
  is not normalised, and a root offset turned half-way round.
\<close>

theorem UpdateOdom_Orientation_unit_witness:
  "SizeSquared (Rotation (RootOffset (example_component ENCODER True example_offset))) = 1 \<and>
   \<not> (1 / 2 :: real) < float_1e_09 \<and>
   Size (Pose_Pose_Orientation (OdomData (UpdateOdom (\<lambda>t. t) example_euler
      (example_component ENCODER True example_offset)
      (example_tick (1 / 2) (FVector 7 8 9) (FQuat 3 0 0 4) 5) (1 / 2)))) = 1"
proof -
  have r: "SizeSquared (Rotation (RootOffset (example_component ENCODER True example_offset)))
      = 1"
    by (simp add: example_component_def example_offset_def)
  have g: "\<not> (1 / 2 :: real) < float_1e_09" by (simp add: float_1e_09_def)
  from UpdateOdom_Orientation_unit [OF r g] r g show ?thesis by blast
qed


section \<open>The twist and the root offset\<close>

lemma lazy_init_RootOffset_update:
  "lazy_init (s\<lparr>RootOffset := r\<rparr>) w = (lazy_init s w)\<lparr>RootOffset := r\<rparr>"
  by (simp add: lazy_init_def InitOdom_def Let_def)

lemma UpdateOdom_PreviousNoisy_RootOffset_indep:
  "PreviousNoisyTransform (UpdateOdom toStamp euler (s\<lparr>RootOffset := r\<rparr>) w dt) =
   PreviousNoisyTransform (UpdateOdom toStamp euler s w dt)"
  by (simp add: UpdateOdom_def Let_def InitOdom_def noiseRot_def)

text \<open>
  Claim C7.  In an \<open>UpdateOdom\<close> call that passes the guard, the linear twist is the
  difference of the new and the old noisy position, unrotated by the new noisy rotation
  (the orientation before the root offset is applied) and divided by \<open>InDeltaTime\<close>; the
  emitted orientation is that noisy rotation multiplied on the right by the root offset's
  rotation; and neither twist component depends on the root offset.
\<close>

theorem UpdateOdom_twist_before_root_offset:
  assumes "\<not> dt < float_1e_09"
  shows
   "Twist_Twist_Linear (OdomData (UpdateOdom toStamp euler s w dt)) =
      vec_div
        (UnrotateVector (Rotation (PreviousNoisyTransform (UpdateOdom toStamp euler s w dt)))
           (vec_sub (Translation (PreviousNoisyTransform (UpdateOdom toStamp euler s w dt)))
              (Translation (PreviousNoisyTransform (lazy_init s w))))) dt \<and>
    Pose_Pose_Orientation (OdomData (UpdateOdom toStamp euler s w dt)) =
      quat_mul (Rotation (PreviousNoisyTransform (UpdateOdom toStamp euler s w dt)))
        (Rotation (RootOffset s)) \<and>
    Twist_Twist_Linear (OdomData (UpdateOdom toStamp euler (s\<lparr>RootOffset := r\<rparr>) w dt)) =
      Twist_Twist_Linear (OdomData (UpdateOdom toStamp euler s w dt)) \<and>
    Twist_Twist_Angular (OdomData (UpdateOdom toStamp euler (s\<lparr>RootOffset := r\<rparr>) w dt)) =
      Twist_Twist_Angular (OdomData (UpdateOdom toStamp euler s w dt))"
proof -
  have l: "PreviousNoisyTransform (lazy_init (s\<lparr>RootOffset := r\<rparr>) w) =
      PreviousNoisyTransform (lazy_init s w)"
    by (simp add: lazy_init_RootOffset_update)
  show ?thesis
    by (simp only: UpdateOdom_Twist_Linear [OF assms] UpdateOdom_Twist_Angular [OF assms]
        UpdateOdom_Orientation [OF assms] UpdateOdom_PreviousNoisy_RootOffset_indep l simp_thms)
qed

text \<open>An instance of C7: the same tick with and without a root offset.\<close>

theorem UpdateOdom_twist_before_root_offset_witness:
  "\<not> (1 / 2 :: real) < float_1e_09 \<and>
   Twist_Twist_Linear (OdomData (UpdateOdom (\<lambda>t. t) example_euler
      ((example_component ENCODER True TransformIdentity)\<lparr>RootOffset := example_offset\<rparr>)
      (example_tick (1 / 2) (FVector 7 8 9) (FQuat 0 0 1 0) 5) (1 / 2))) =
   Twist_Twist_Linear (OdomData (UpdateOdom (\<lambda>t. t) example_euler
      (example_component ENCODER True TransformIdentity)
      (example_tick (1 / 2) (FVector 7 8 9) (FQuat 0 0 1 0) 5) (1 / 2)))"
proof -
  have g: "\<not> (1 / 2 :: real) < float_1e_09" by (simp add: float_1e_09_def)
  from UpdateOdom_twist_before_root_offset [OF g] g show ?thesis by blast
qed

lemma truePosLocal_ActorQuat:
  "truePosLocal s (w\<lparr>ActorQuat := q\<rparr>) = truePosLocal s w"
  by (simp add: truePosLocal_def)

lemma truePosLocal_InitOdom_ActorQuat:
  "truePosLocal (InitOdom s (w\<lparr>ActorQuat := q\<rparr>)) (w\<lparr>ActorQuat := q\<rparr>) =
   truePosLocal (InitOdom s w) w"
  by (simp add: truePosLocal_def InitOdom_def Let_def vec_sub_self UnrotateVector_Zero)

lemma noisy_translation_ActorQuat:
  assumes "\<not> dt < float_1e_09"
  shows
    "Translation (PreviousNoisyTransform
        (UpdateOdom toStamp euler s (w\<lparr>ActorQuat := q\<rparr>) dt)) =
     Translation (PreviousNoisyTransform (UpdateOdom toStamp euler s w dt))"
proof (cases "bIsOdomInitialized s")
  case True
  then show ?thesis
    by (simp add: UpdateOdom_PreviousNoisy_Translation [OF assms] lazy_init_initialized
        truePosLocal_ActorQuat)
next
  case False
  then have l: "lazy_init s w = InitOdom s w"
    "lazy_init s (w\<lparr>ActorQuat := q\<rparr>) = InitOdom s (w\<lparr>ActorQuat := q\<rparr>)"
    by (simp_all add: lazy_init_def)
  show ?thesis
    by (simp add: UpdateOdom_PreviousNoisy_Translation [OF assms] l
        truePosLocal_InitOdom_ActorQuat InitOdom_frame vec_sub_self)
qed

text \<open>
  Claim C9.  In an \<open>UpdateOdom\<close> call that passes the guard, the emitted position is the
  noisy position plus the root offset's translation as it is, and it is the same
  whatever the owner's current orientation: the offset is not turned into the body's
  frame.
\<close>

theorem root_offset_translation_added_unrotated:
  assumes "\<not> dt < float_1e_09"
  shows
    "Pose_Pose_Position (OdomData (UpdateOdom toStamp euler s w dt)) =
       vec_add (Translation (PreviousNoisyTransform (UpdateOdom toStamp euler s w dt)))
         (Translation (RootOffset s)) \<and>
     Pose_Pose_Position (OdomData (UpdateOdom toStamp euler s (w\<lparr>ActorQuat := q\<rparr>) dt)) =
       Pose_Pose_Position (OdomData (UpdateOdom toStamp euler s w dt))"
  by (simp only: UpdateOdom_Position [OF assms] noisy_translation_ActorQuat [OF assms] simp_thms)

text \<open>
  An instance of C9: a body at (7, 8, 9) turned half-way round about the vertical axis,
  with a root offset of one unit forward.  The emitted position is (8, 8, 9): the offset
  went along the reference frame's forward axis, not the body's.
\<close>

theorem root_offset_translation_added_unrotated_witness:
  "\<not> (1 / 2 :: real) < float_1e_09 \<and>
   Pose_Pose_Position (OdomData (UpdateOdom (\<lambda>t. t) example_euler
      (example_component WORLD False example_offset)
      (example_tick (1 / 2) (FVector 7 8 9) (FQuat 0 0 1 0) 5) (1 / 2))) =
     vec_add (Translation (PreviousNoisyTransform (UpdateOdom (\<lambda>t. t) example_euler
      (example_component WORLD False example_offset)
      (example_tick (1 / 2) (FVector 7 8 9) (FQuat 0 0 1 0) 5) (1 / 2))))
       (Translation (RootOffset (example_component WORLD False example_offset))) \<and>
   Pose_Pose_Position (OdomData (UpdateOdom (\<lambda>t. t) example_euler
      (example_component WORLD False example_offset)
      (example_tick (1 / 2) (FVector 7 8 9) (FQuat 0 0 1 0) 5) (1 / 2))) = FVector 8 8 9"
proof -
  have g: "\<not> (1 / 2 :: real) < float_1e_09" by (simp add: float_1e_09_def)
  have t: "Translation (PreviousNoisyTransform (UpdateOdom (\<lambda>t. t) example_euler
      (example_component WORLD False example_offset)
      (example_tick (1 / 2) (FVector 7 8 9) (FQuat 0 0 1 0) 5) (1 / 2))) = FVector 7 8 9"
    by (simp add: UpdateOdom_PreviousNoisy_Translation [OF g] lazy_init_def truePosLocal_def
        InitOdom_def Let_def example_component_def example_tick_def ZeroVector_def
        QuatIdentity_def)
  have r: "Translation (RootOffset (example_component WORLD False example_offset)) =
      FVector 1 0 0"
    by (simp add: example_component_def example_offset_def)
  from root_offset_translation_added_unrotated [OF g, of "\<lambda>t. t" example_euler
      "example_component WORLD False example_offset"
      "example_tick (1 / 2) (FVector 7 8 9) (FQuat 0 0 1 0) 5"] g
  show ?thesis by (simp add: t r)
qed


section \<open>Activation of the mesh actor\<close>

lemma NoneValue_neq_ZeroValue: "IntVector_NoneValue \<noteq> IntVector_ZeroValue"
  by (simp add: IntVector_NoneValue_def IntVector_ZeroValue_def INDEX_NONE_def)

text \<open>
  Claim C10, amended.  \<open>IsActivated\<close> is true exactly when \<open>CellIdx\<close> is not the none
  value.  When the delegate is not bound or leaves the cell index and the location alone,
  and \<open>SetCustomDepthEnabled\<close> leaves them alone, \<open>SetActivated(false)\<close> leaves the cell
  index at the none value and the actor at (0, 0, -5000), so the actor is not activated;
  \<open>SetActivated(true)\<close> leaves the actor activated, with the cell index zero if it was the
  none value and unchanged otherwise.
\<close>

theorem SetActivated_IsActivated:
  assumes "\<forall>f. OnDeactivated = Some f \<longrightarrow> keeps_cell_and_location f"
    and "\<forall>b. keeps_cell_and_location (SetCustomDepthEnabled b)"
  shows
    "(IsActivated a \<longleftrightarrow> CellIdx a \<noteq> IntVector_NoneValue) \<and>
     CellIdx (SetActivated dbg OnDeactivated SetCustomDepthEnabled False a) =
       IntVector_NoneValue \<and>
     MeshActorLocation (SetActivated dbg OnDeactivated SetCustomDepthEnabled False a) =
       FVector 0 0 (- 5000) \<and>
     \<not> IsActivated (SetActivated dbg OnDeactivated SetCustomDepthEnabled False a) \<and>
     IsActivated (SetActivated dbg OnDeactivated SetCustomDepthEnabled True a) \<and>
     CellIdx (SetActivated dbg OnDeactivated SetCustomDepthEnabled True a) =
       (if CellIdx a = IntVector_NoneValue then IntVector_ZeroValue else CellIdx a)"
  using assms NoneValue_neq_ZeroValue
  by (cases OnDeactivated)
     (simp_all add: SetActivated_def IsActivated_def keeps_cell_and_location_def Let_def)

text \<open>An instance of C10: an actor is deactivated and then activated again.\<close>

theorem SetActivated_IsActivated_witness:
  "keeps_cell_and_location example_delegate \<and>
   (\<forall>b. keeps_cell_and_location (example_SetCustomDepthEnabled b)) \<and>
   IsActivated example_actor \<and>
   \<not> IsActivated (SetActivated True (Some example_delegate) example_SetCustomDepthEnabled
        False example_actor) \<and>
   MeshActorLocation (SetActivated True (Some example_delegate) example_SetCustomDepthEnabled
        False example_actor) = FVector 0 0 (- 5000) \<and>
   IsActivated (SetActivated True (Some example_delegate) example_SetCustomDepthEnabled True
      (SetActivated True (Some example_delegate) example_SetCustomDepthEnabled
        False example_actor))"
proof -
  have d: "\<forall>f. Some example_delegate = Some f \<longrightarrow> keeps_cell_and_location f"
    by (simp add: keeps_cell_and_location_def example_delegate_def)
  have c: "\<forall>b. keeps_cell_and_location (example_SetCustomDepthEnabled b)"
    by (simp add: keeps_cell_and_location_def example_SetCustomDepthEnabled_def)
  have i: "IsActivated example_actor"
    by (simp add: IsActivated_def example_actor_def IntVector_NoneValue_def INDEX_NONE_def)
  have k: "keeps_cell_and_location example_delegate"
    by (simp add: keeps_cell_and_location_def example_delegate_def)
  from SetActivated_IsActivated [OF d c] k c i show ?thesis by blast
qed

text \<open>
  Claim C10 as stated fails for a call whose delegate writes the cell index: the delegate
  runs after \<open>SetActivated(false)\<close> has stored the none value, and with a delegate that
  puts the actor back into cell (0, 0, 0) the actor is still activated after the call.
\<close>

theorem SetActivated_delegate_counterexample:
  "IsActivated (SetActivated False (Some example_reset_delegate)
      example_SetCustomDepthEnabled False example_actor) \<and>
   CellIdx (SetActivated False (Some example_reset_delegate)
      example_SetCustomDepthEnabled False example_actor) = IntVector_ZeroValue \<and>
   IntVector_ZeroValue \<noteq> IntVector_NoneValue"
  using NoneValue_neq_ZeroValue
  by (simp add: SetActivated_def IsActivated_def Let_def example_reset_delegate_def
      example_SetCustomDepthEnabled_def eq_commute [of IntVector_ZeroValue])

end
